theory Spec2Isabelle
  imports Main "HOL-Library.Word"
begin

section \<open>Errors\<close>

text \<open>
  Go's \<open>error\<close> values of the server. The sentinel errors keep their source names.
  \<open>wrapError a b\<close> and \<open>fmt.Errorf("%w: %w", a, b)\<close> are both the constructor
  \<open>wrapError\<close> (its second argument may be nil in the source, hence the option);
  \<open>fmt.Errorf("...: %w", e)\<close> with a text prefix is \<open>Errorf\<close>. \<open>External\<close> is an
  error produced by a library (transport, database driver, context), \<open>PgError\<close> a
  PostgreSQL error with its SQLSTATE code, \<open>Reported\<close> the error that the
  \<open>reportError\<close> callback returns for a message, and \<open>Panic\<close> a run-time panic.
\<close>

datatype error =
    errCannotSend
  | errContextCanceled
  | errContextCancelled
  | errBadNumberOfArguments
  | errNoSuchCourse
  | errUnexpectedDBError
  | errInvalidState
  | ErrTxClosed
  | ErrNoRows
  | ErrNoCookie
  | PgError string
  | External string
  | Reported string
  | Errorf string error
  | wrapError error "error option"
  | Panic string

section \<open>The message splitter (splitMsg)\<close>

text \<open>
  \<open>splitMsg\<close> ranges over the bytes of the frame with index \<open>i\<close>. On a space it reads
  \<open>(*b)[i+1]\<close>; Go panics when that index is not below \<open>len(*b)\<close>. The slice
  \<open>(*b)[i+2:]\<close> is taken only after \<open>(*b)[i+1]\<close> was read, so \<open>i+2 \<le> len(*b)\<close>
  there.
\<close>

function splitMsg_loop :: "string \<Rightarrow> nat \<Rightarrow> string list \<Rightarrow> string \<Rightarrow> error + string list" where
  "splitMsg_loop b i mar elem =
     (if length b \<le> i then Inr (mar @ [elem])
      else if b ! i = CHR '' '' then
        (if length b \<le> i + 1 then Inl (Panic ''index out of range'')
         else if b ! (i + 1) = CHR '':'' then Inr (mar @ [elem, drop (i + 2) b])
         else splitMsg_loop b (i + 1) (mar @ [elem]) [])
      else splitMsg_loop b (i + 1) mar (elem @ [b ! i]))"
  by pat_completeness auto
termination
  by (relation "measure (\<lambda>(b, i, mar, elem). length b - i)") auto

definition splitMsg :: "string \<Rightarrow> error + string list" where
  "splitMsg b = splitMsg_loop b 0 [] []"

section \<open>The coalescing signal (usemT)\<close>

text \<open>
  A Go channel of \<open>struct{}\<close> is its capacity and the queued items. A nil channel
  (the field of a \<open>usemT\<close> before \<open>init\<close>) is \<open>None\<close>: a send on it is never ready.
  \<open>try_send\<close> is the send of a \<open>select\<close> case: \<open>None\<close> when the send is not ready.
  No receiver is waiting on the channel in this model.
\<close>

record chan =
  cap :: nat
  buf :: "unit list"

record usemT =
  u_ch :: "chan option"

datatype 'a outcome = Blocks | Returns 'a

definition try_send :: "chan option \<Rightarrow> chan option option" where
  "try_send ch =
     (case ch of
        None \<Rightarrow> None
      | Some c \<Rightarrow> if length (buf c) < cap c then Some (Some (c\<lparr>buf := buf c @ [()]\<rparr>)) else None)"

text \<open>A \<open>select\<close> with one send case, with or without a \<open>default\<close> case.\<close>

definition select_send :: "chan option \<Rightarrow> bool \<Rightarrow> (chan option) outcome" where
  "select_send ch has_default =
     (case try_send ch of
        Some ch' \<Rightarrow> Returns ch'
      | None \<Rightarrow> if has_default then Returns ch else Blocks)"

definition init :: "usemT \<Rightarrow> usemT" where
  "init s = s\<lparr>u_ch := Some \<lparr>cap = 1, buf = []\<rparr>\<rparr>"

definition set_usem :: "usemT \<Rightarrow> usemT outcome" where
  "set_usem s =
     (case select_send (u_ch s) True of
        Blocks \<Rightarrow> Blocks
      | Returns ch' \<Rightarrow> Returns (s\<lparr>u_ch := ch'\<rparr>))"

text \<open>\<open>n\<close> calls of \<open>set\<close> in a row; a call that blocks stops the sequence.\<close>

fun set_n :: "nat \<Rightarrow> usemT \<Rightarrow> usemT outcome" where
  "set_n 0 s = Returns s"
| "set_n (Suc n) s = (case set_usem s of Blocks \<Rightarrow> Blocks | Returns s' \<Rightarrow> set_n n s')"

text \<open>The receive of the forwarder task (\<open><-usem.ch\<close>), when an item is queued.\<close>

definition try_recv :: "usemT \<Rightarrow> usemT option" where
  "try_recv s =
     (case u_ch s of
        None \<Rightarrow> None
      | Some c \<Rightarrow> (case buf c of [] \<Rightarrow> None | x # xs \<Rightarrow> Some (s\<lparr>u_ch := Some (c\<lparr>buf := xs\<rparr>)\<rparr>)))"

definition pending :: "usemT \<Rightarrow> nat" where
  "pending s = (case u_ch s of None \<Rightarrow> 0 | Some c \<Rightarrow> length (buf c))"

text \<open>A signal is initialized when its channel is the one \<open>init\<close> made: capacity one.\<close>

definition initialized :: "usemT \<Rightarrow> bool" where
  "initialized s = (case u_ch s of None \<Rightarrow> False | Some c \<Rightarrow> cap c = 1 \<and> length (buf c) \<le> cap c)"

section \<open>Parsing the course id (strconv.ParseInt, base 10, 64 bits)\<close>

text \<open>
  Go's \<open>strconv.ParseInt(s, 10, 64)\<close>: an optional sign, then one or more decimal
  digits, and the value must fit a signed 64-bit integer. \<open>None\<close> is a non-nil error
  (syntax or range); the handlers do not look at which.
\<close>

definition digit_val :: "char \<Rightarrow> nat option" where
  "digit_val c =
     (let n = (of_char c :: nat) in if 48 \<le> n \<and> n \<le> 57 then Some (n - 48) else None)"

fun parse_digits :: "string \<Rightarrow> nat \<Rightarrow> nat option" where
  "parse_digits [] acc = Some acc"
| "parse_digits (c # cs) acc =
     (case digit_val c of None \<Rightarrow> None | Some d \<Rightarrow> parse_digits cs (acc * 10 + d))"

definition ParseInt :: "string \<Rightarrow> int option" where
  "ParseInt s =
     (case s of
        [] \<Rightarrow> None
      | c # cs \<Rightarrow>
          (let neg = (c = CHR ''-'');
               ds = (if c = CHR ''+'' \<or> c = CHR ''-'' then cs else s)
           in if ds = [] then None
              else (case parse_digits ds 0 of
                      None \<Rightarrow> None
                    | Some n \<Rightarrow>
                        if neg then (if n \<le> 2 ^ 63 then Some (- int n) else None)
                        else (if n < 2 ^ 63 then Some (int n) else None))))"

section \<open>The process state seen by the message handlers\<close>

text \<open>
  A course (\<open>courseT\<close>): the catalogue attributes and the seat counter, both
  \<open>uint32\<close>. The field \<open>Max\<close> of the source is \<open>Max'\<close> here. The lock and the
  subscriber table of a course appear as events of the handlers, not as fields.
\<close>

record courseT =
  Group :: string
  Type :: string
  Max' :: "32 word"
  Selected :: "32 word"

text \<open>
  The values of the \<open>courses\<close> map are \<open>interface{}\<close>: a \<open>*courseT\<close> (an address of
  the course store, or nil) or something else. The values of \<open>cancelPool\<close> likewise are
  a \<open>*context.CancelFunc\<close> (a handle, or nil) or something else.
\<close>

datatype item = CoursePtr "nat option" | NotACourse

datatype cancel_item = CancelPtr "nat option" | NotACancel

text \<open>
  What a handler does to the outside, in order: frames handed to \<open>writeText\<close>, calls
  of the \<open>reportError\<close> callback, database statements, lock operations and atomic
  updates of a course's counter (by address), the start of \<open>propagateSelectedUpdate\<close>
  for a course, \<open>sendSelectedUpdate\<close> for a course id, the broadcast \<open>propagate\<close>, the
  call of a cancel handle and the store to the atomic mode cell.
\<close>

datatype event =
    WriteText string
  | ReportError string
  | DbBegin
  | DbInsert int string int
  | DbCommit
  | DbRollback
  | DbDelete string int
  | DbUpdateState "32 word"
  | Lock nat
  | Unlock nat
  | AtomicAddSelected nat
  | AtomicSubSelected nat
  | GoPropagateSelectedUpdate nat
  | SendSelectedUpdate int
  | Propagate string
  | Cancel nat
  | StoreState "32 word"

text \<open>
  \<open>state\<close> is the atomic mode cell, \<open>courses\<close> the catalogue map, \<open>heap\<close> the store of
  the courses the pointers of the map point to, \<open>cancelPool\<close> the session registry in
  the order \<open>Range\<close> visits it, \<open>userCourseGroups\<close> and \<open>userCourseTypes\<close> the
  bookkeeping of the session whose handler runs, \<open>trace\<close> the events so far.
\<close>

record world =
  state :: "32 word"
  courses :: "int \<rightharpoonup> item"
  heap :: "nat \<Rightarrow> courseT"
  cancelPool :: "(string \<times> cancel_item) list"
  userCourseGroups :: "string set"
  userCourseTypes :: "string \<rightharpoonup> int"
  trace :: "event list"

text \<open>
  The results of the calls that leave the process, one field for each call site of a
  handler (a handler runs each site at most once): \<open>ctxDone\<close> is \<open>Some e\<close> when
  \<open>ctx.Done()\<close> is closed, with \<open>ctx.Err() = e\<close>; \<open>now\<close> is
  \<open>time.Now().UnixMicro()\<close>; \<open>writeErr\<close> the result of \<open>writeText\<close> for a frame; the
  others the results of the database calls, of \<open>decrementSelectedAndPropagate\<close> and of
  \<open>sendSelectedUpdate\<close>; \<open>propagateImmediate\<close> is \<open>config.Perf.PropagateImmediate\<close>.
\<close>

record env =
  ctxDone :: "error option"
  now :: int
  writeErr :: "string \<Rightarrow> error option"
  beginErr :: "error option"
  insertErr :: "error option"
  commitErr :: "error option"
  rollbackErr :: "error option"
  deferRollbackErr :: "error option"
  deleteRes :: "error + nat"
  decrementErr :: "error option"
  sendUpdateErr :: "error option"
  saveErr :: "error option"
  propagateImmediate :: bool

text \<open>\<open>errors.Is\<close> and \<open>errors.As\<close> (for \<open>*pgconn.PgError\<close>) walk the wrapped errors.\<close>

fun errorsIs :: "error \<Rightarrow> error \<Rightarrow> bool" where
  "errorsIs (wrapError a b) t =
     (wrapError a b = t \<or> errorsIs a t \<or> (case b of None \<Rightarrow> False | Some e \<Rightarrow> errorsIs e t))"
| "errorsIs (Errorf m e) t = (Errorf m e = t \<or> errorsIs e t)"
| "errorsIs e t = (e = t)"

fun errorsAsPg :: "error \<Rightarrow> string option" where
  "errorsAsPg (PgError code) = Some code"
| "errorsAsPg (wrapError a b) =
     (case errorsAsPg a of
        Some code \<Rightarrow> Some code
      | None \<Rightarrow> (case b of None \<Rightarrow> None | Some e \<Rightarrow> errorsAsPg e))"
| "errorsAsPg (Errorf m e) = errorsAsPg e"
| "errorsAsPg e = None"

text \<open>
  Modelled from the spec: the constant \<open>pgErrUniqueViolation\<close> is declared outside
  src/; the spec calls the case the unique violation of the insert, whose SQLSTATE is
  23505.
\<close>

definition pgErrUniqueViolation :: string where
  "pgErrUniqueViolation = ''23505''"

definition emit :: "event \<Rightarrow> world \<Rightarrow> world" where
  "emit e s = s\<lparr>trace := trace s @ [e]\<rparr>"

text \<open>
  \<open>writeText\<close>, \<open>sendSelectedUpdate\<close>, \<open>propagateSelectedUpdate\<close> and the
  \<open>reportError\<close> callback are declared outside src/: each is the event of its call
  and, where the source reads one, the result the environment gives.
\<close>

definition writeText :: "env \<Rightarrow> string \<Rightarrow> world \<Rightarrow> error option \<times> world" where
  "writeText e frame s = (writeErr e frame, emit (WriteText frame) s)"

definition sendSelectedUpdate :: "env \<Rightarrow> int \<Rightarrow> world \<Rightarrow> error option \<times> world" where
  "sendSelectedUpdate e courseID s = (sendUpdateErr e, emit (SendSelectedUpdate courseID) s)"

definition reportError :: "string \<Rightarrow> world \<Rightarrow> error option \<times> world" where
  "reportError msg s = (Some (Reported msg), emit (ReportError msg) s)"

text \<open>
  Modelled from the spec: \<open>decrementSelectedAndPropagate\<close> is declared outside src/.
  The spec: under the course's lock, decrement \<open>selected\<close>, clamped at zero; then
  signal the subscribers of the course. Its error result comes from the environment.
\<close>

definition decrementSelectedAndPropagate :: "env \<Rightarrow> nat \<Rightarrow> world \<Rightarrow> error option \<times> world" where
  "decrementSelectedAndPropagate e a s =
     (let s1 = emit (Lock a) s;
          c = heap s1 a;
          s2 = emit (AtomicSubSelected a)
                 (s1\<lparr>heap := (heap s1)(a := c\<lparr>Selected := (if Selected c = 0 then 0 else Selected c - 1)\<rparr>)\<rparr>);
          s3 = emit (Unlock a) s2;
          s4 = emit (GoPropagateSelectedUpdate a) s3
      in (decrementErr e, s4))"

text \<open>\<open>err := writeText(...)\<close>, returned wrapped in \<open>errCannotSend\<close> when not nil.\<close>

definition writeTextOrCannotSend :: "env \<Rightarrow> string \<Rightarrow> world \<Rightarrow> error option \<times> world" where
  "writeTextOrCannotSend e frame s =
     (case writeText e frame s of
        (Some err, s1) \<Rightarrow> (Some (wrapError errCannotSend (Some err)), s1)
      | (None, s1) \<Rightarrow> (None, s1))"

text \<open>
  The three steps after parsing the id: \<open>courses.Load\<close>, the type assertion to
  \<open>*courseT\<close> (a panic when it fails) and the nil check.
\<close>

datatype lookup = NoSuchKey | NotCourseT | NilCourse | Found nat

definition loadCourse :: "world \<Rightarrow> int \<Rightarrow> lookup" where
  "loadCourse s courseID =
     (case courses s courseID of
        None \<Rightarrow> NoSuchKey
      | Some NotACourse \<Rightarrow> NotCourseT
      | Some (CoursePtr None) \<Rightarrow> NilCourse
      | Some (CoursePtr (Some a)) \<Rightarrow> Found a)"

text \<open>
  The admission critical section: the closure that locks \<open>course.SelectedLock\<close>,
  compares and increments.
\<close>

definition lockedAdmit :: "nat \<Rightarrow> world \<Rightarrow> bool \<times> world" where
  "lockedAdmit a s =
     (let s1 = emit (Lock a) s;
          c = heap s1 a
      in if Selected c < Max' c
         then (True, emit (Unlock a)
                       (emit (AtomicAddSelected a)
                          (s1\<lparr>heap := (heap s1)(a := c\<lparr>Selected := Selected c + 1\<rparr>)\<rparr>)))
         else (False, emit (Unlock a) s1))"

section \<open>The Y handler, newer version (messageChooseCourse with userCourseTypes)\<close>

text \<open>
  The deferred \<open>tx.Rollback\<close> of the transaction closure runs after the body and
  replaces the result when it fails with anything but \<open>pgx.ErrTxClosed\<close>.
\<close>

definition deferredRollback :: "env \<Rightarrow> error option \<times> world \<Rightarrow> error option \<times> world" where
  "deferredRollback e rs =
     (case rs of (r, s) \<Rightarrow>
        (let s1 = emit DbRollback s in
         case deferRollbackErr e of
           None \<Rightarrow> (r, s1)
         | Some err \<Rightarrow>
             if \<not> errorsIs err ErrTxClosed
             then (Some (wrapError errUnexpectedDBError (Some err)), s1)
             else (r, s1)))"

text \<open>
  The branch \<open>if ok\<close>. When the commit fails, the \<open>err\<close> wrapped in the last return is
  the inner one, declared by \<open>err := course.decrementSelectedAndPropagate(ctx, c)\<close>,
  which is nil there. The counters of \<open>userCourseTypes\<close> are Go ints, here \<open>int\<close>.
\<close>

definition chooseCommit :: "env \<Rightarrow> string list \<Rightarrow> int \<Rightarrow> nat \<Rightarrow> world \<Rightarrow> error option \<times> world" where
  "chooseCommit e mar courseID a s =
     (let s1 = emit (GoPropagateSelectedUpdate a) s;
          s2 = emit DbCommit s1
      in case commitErr e of
           Some err \<Rightarrow>
             (case decrementSelectedAndPropagate e a s2 of
                (Some err', s3) \<Rightarrow> (Some (wrapError errCannotSend (Some err')), s3)
              | (None, s3) \<Rightarrow> (Some (wrapError errUnexpectedDBError None), s3))
         | None \<Rightarrow>
             (let c = heap s2 a;
                  s3 = s2\<lparr>userCourseGroups := insert (Group c) (userCourseGroups s2),
                          userCourseTypes := (userCourseTypes s2)
                            (Type c \<mapsto> (case userCourseTypes s2 (Type c) of None \<Rightarrow> 0 | Some n \<Rightarrow> n) + 1)\<rparr>
              in case writeTextOrCannotSend e (''Y '' @ mar ! 1) s3 of
                   (Some err, s4) \<Rightarrow> (Some err, s4)
                 | (None, s4) \<Rightarrow>
                     if propagateImmediate e
                     then (case sendSelectedUpdate e courseID s4 of
                             (Some err, s5) \<Rightarrow> (Some (wrapError errCannotSend (Some err)), s5)
                           | (None, s5) \<Rightarrow> (None, s5))
                     else (None, s4)))"

text \<open>The branch \<open>else\<close>: the course is full.\<close>

definition chooseFull :: "env \<Rightarrow> string list \<Rightarrow> world \<Rightarrow> error option \<times> world" where
  "chooseFull e mar s =
     (let s1 = emit DbRollback s in
      case rollbackErr e of
        Some err \<Rightarrow> (Some (wrapError errUnexpectedDBError (Some err)), s1)
      | None \<Rightarrow> writeTextOrCannotSend e (''R '' @ mar ! 1 @ '' :Full'') s1)"

text \<open>The body of the closure from the INSERT on (the part the deferred rollback covers).\<close>

definition chooseInsert :: "env \<Rightarrow> string list \<Rightarrow> string \<Rightarrow> int \<Rightarrow> nat \<Rightarrow> world \<Rightarrow> error option \<times> world" where
  "chooseInsert e mar userID courseID a s =
     (let s1 = emit (DbInsert (now e) userID courseID) s in
      case insertErr e of
        Some err \<Rightarrow>
          if errorsAsPg err = Some pgErrUniqueViolation
          then (case writeText e (''Y '' @ mar ! 1) s1 of
                  (Some err2, s2) \<Rightarrow>
                    (Some (wrapError err2 (Some (wrapError errUnexpectedDBError (Some err)))), s2)
                | (None, s2) \<Rightarrow> (None, s2))
          else (Some (wrapError errUnexpectedDBError (Some err)), s1)
      | None \<Rightarrow>
          (case lockedAdmit a s1 of
             (ok, s2) \<Rightarrow> if ok then chooseCommit e mar courseID a s2 else chooseFull e mar s2))"

definition chooseTx :: "env \<Rightarrow> string list \<Rightarrow> string \<Rightarrow> int \<Rightarrow> nat \<Rightarrow> world \<Rightarrow> error option \<times> world" where
  "chooseTx e mar userID courseID a s =
     (let s1 = emit DbBegin s in
      case beginErr e of
        Some err \<Rightarrow> (Some (wrapError errUnexpectedDBError (Some err)), s1)
      | None \<Rightarrow> deferredRollback e (chooseInsert e mar userID courseID a s1))"

text \<open>
  The handler. Its result is the returned error (\<open>None\<close> is nil; a panic is
  \<open>Some (Panic _)\<close>) and the world after it.
\<close>

definition messageChooseCourse :: "env \<Rightarrow> string list \<Rightarrow> string \<Rightarrow> world \<Rightarrow> error option \<times> world" where
  "messageChooseCourse e mar userID s =
     (if state s \<noteq> 2 then writeTextOrCannotSend e ''E :Course selections are not open'' s
      else case ctxDone e of
        Some cerr \<Rightarrow> (Some (wrapError errContextCanceled (Some cerr)), s)
      | None \<Rightarrow>
          if length mar \<noteq> 2 then (Some errBadNumberOfArguments, s)
          else (case ParseInt (mar ! 1) of
                  None \<Rightarrow> (Some errNoSuchCourse, s)
                | Some courseID \<Rightarrow>
                    (case loadCourse s courseID of
                       NoSuchKey \<Rightarrow> (Some errNoSuchCourse, s)
                     | NotCourseT \<Rightarrow> (Some (Panic ''courses map has non-*courseT items''), s)
                     | NilCourse \<Rightarrow> (Some errNoSuchCourse, s)
                     | Found a \<Rightarrow>
                         if Group (heap s a) \<in> userCourseGroups s
                         then writeTextOrCannotSend e (''R '' @ mar ! 1 @ '' :Group conflict'') s
                         else chooseTx e mar userID courseID a s)))"

section \<open>The Y handler, version of wsm.go (with the reportError callback)\<close>

definition deferredRollback_wsm :: "env \<Rightarrow> error option \<times> world \<Rightarrow> error option \<times> world" where
  "deferredRollback_wsm e rs =
     (case rs of (r, s) \<Rightarrow>
        (let s1 = emit DbRollback s in
         case deferRollbackErr e of
           None \<Rightarrow> (r, s1)
         | Some err \<Rightarrow>
             if \<not> errorsIs err ErrTxClosed
             then reportError ''Database error while rolling back transaction in defer block'' s1
             else (r, s1)))"

definition chooseCommit_wsm :: "env \<Rightarrow> string list \<Rightarrow> int \<Rightarrow> nat \<Rightarrow> world \<Rightarrow> error option \<times> world" where
  "chooseCommit_wsm e mar courseID a s =
     (let s1 = emit (GoPropagateSelectedUpdate a) s;
          s2 = emit DbCommit s1
      in case commitErr e of
           Some err \<Rightarrow>
             (case decrementSelectedAndPropagate e a s2 of
                (Some err', s3) \<Rightarrow> (Some (wrapError errCannotSend (Some err')), s3)
              | (None, s3) \<Rightarrow> reportError ''Database error while committing transaction'' s3)
         | None \<Rightarrow>
             (let c = heap s2 a;
                  s3 = s2\<lparr>userCourseGroups := insert (Group c) (userCourseGroups s2)\<rparr>
              in case writeTextOrCannotSend e (''Y '' @ mar ! 1) s3 of
                   (Some err, s4) \<Rightarrow> (Some err, s4)
                 | (None, s4) \<Rightarrow>
                     if propagateImmediate e
                     then (case sendSelectedUpdate e courseID s4 of
                             (Some err, s5) \<Rightarrow> (Some (wrapError errCannotSend (Some err)), s5)
                           | (None, s5) \<Rightarrow> (None, s5))
                     else (None, s4)))"

definition chooseFull_wsm :: "env \<Rightarrow> string list \<Rightarrow> world \<Rightarrow> error option \<times> world" where
  "chooseFull_wsm e mar s =
     (let s1 = emit DbRollback s in
      case rollbackErr e of
        Some err \<Rightarrow>
          reportError ''Database error while rolling back transaction due to course limit'' s1
      | None \<Rightarrow> writeTextOrCannotSend e (''R '' @ mar ! 1 @ '' :Full'') s1)"

definition chooseInsert_wsm :: "env \<Rightarrow> string list \<Rightarrow> string \<Rightarrow> int \<Rightarrow> nat \<Rightarrow> world \<Rightarrow> error option \<times> world" where
  "chooseInsert_wsm e mar userID courseID a s =
     (let s1 = emit (DbInsert (now e) userID courseID) s in
      case insertErr e of
        Some err \<Rightarrow>
          if errorsAsPg err = Some pgErrUniqueViolation
          then (case writeText e (''Y '' @ mar ! 1) s1 of
                  (Some err2, s2) \<Rightarrow>
                    (Some (Errorf ''error reaffirming course choice'' err2), s2)
                | (None, s2) \<Rightarrow> (None, s2))
          else reportError ''Database error while inserting course choice'' s1
      | None \<Rightarrow>
          (case lockedAdmit a s1 of
             (ok, s2) \<Rightarrow>
               if ok then chooseCommit_wsm e mar courseID a s2 else chooseFull_wsm e mar s2))"

definition chooseTx_wsm :: "env \<Rightarrow> string list \<Rightarrow> string \<Rightarrow> int \<Rightarrow> nat \<Rightarrow> world \<Rightarrow> error option \<times> world" where
  "chooseTx_wsm e mar userID courseID a s =
     (let s1 = emit DbBegin s in
      case beginErr e of
        Some err \<Rightarrow> reportError ''Database error while beginning transaction'' s1
      | None \<Rightarrow> deferredRollback_wsm e (chooseInsert_wsm e mar userID courseID a s1))"

definition messageChooseCourse_wsm :: "env \<Rightarrow> string list \<Rightarrow> string \<Rightarrow> world \<Rightarrow> error option \<times> world" where
  "messageChooseCourse_wsm e mar userID s =
     (if state s \<noteq> 2 then writeTextOrCannotSend e ''E :Course selections are not open'' s
      else case ctxDone e of
        Some cerr \<Rightarrow> (Some (wrapError errContextCancelled (Some cerr)), s)
      | None \<Rightarrow>
          if length mar \<noteq> 2 then reportError ''Invalid number of arguments for Y'' s
          else (case ParseInt (mar ! 1) of
                  None \<Rightarrow> reportError ''Course ID must be an integer'' s
                | Some courseID \<Rightarrow>
                    (case loadCourse s courseID of
                       NoSuchKey \<Rightarrow> reportError ''no such course'' s
                     | NotCourseT \<Rightarrow> (Some (Panic ''courses map has non-*courseT items''), s)
                     | NilCourse \<Rightarrow> reportError ''couse is nil'' s
                     | Found a \<Rightarrow>
                         if Group (heap s a) \<in> userCourseGroups s
                         then writeTextOrCannotSend e (''R '' @ mar ! 1 @ '' :Group conflict'') s
                         else chooseTx_wsm e mar userID courseID a s)))"

section \<open>The N handler (messageUnchooseCourse)\<close>

text \<open>The part run when the DELETE removed a row; \<open>None\<close> first: go on to the reply.\<close>

definition unchooseRemoved :: "env \<Rightarrow> int \<Rightarrow> nat \<Rightarrow> world \<Rightarrow> (error option \<times> world) + world" where
  "unchooseRemoved e courseID a s =
     (case decrementSelectedAndPropagate e a s of
        (Some err, s1) \<Rightarrow> Inl (Some (wrapError errCannotSend (Some err)), s1)
      | (None, s1) \<Rightarrow>
          (case loadCourse s1 courseID of
             NoSuchKey \<Rightarrow> Inl (reportError ''no such course'' s1)
           | NotCourseT \<Rightarrow> Inl (Some (Panic ''courses map has non-*courseT items''), s1)
           | NilCourse \<Rightarrow> Inl (reportError ''couse is nil'' s1)
           | Found a' \<Rightarrow>
               if Group (heap s1 a') \<notin> userCourseGroups s1
               then Inl (reportError ''inconsistent user course groups'' s1)
               else Inr (s1\<lparr>userCourseGroups := userCourseGroups s1 - {Group (heap s1 a')}\<rparr>)))"

definition messageUnchooseCourse :: "env \<Rightarrow> string list \<Rightarrow> string \<Rightarrow> world \<Rightarrow> error option \<times> world" where
  "messageUnchooseCourse e mar userID s =
     (if state s \<noteq> 2 then writeTextOrCannotSend e ''E :Course selections are not open'' s
      else case ctxDone e of
        Some cerr \<Rightarrow> (Some (wrapError errContextCancelled (Some cerr)), s)
      | None \<Rightarrow>
          if length mar \<noteq> 2 then reportError ''Invalid number of arguments for N'' s
          else (case ParseInt (mar ! 1) of
                  None \<Rightarrow> reportError ''Course ID must be an integer'' s
                | Some courseID \<Rightarrow>
                    (case loadCourse s courseID of
                       NoSuchKey \<Rightarrow> reportError ''no such course'' s
                     | NotCourseT \<Rightarrow> (Some (Panic ''courses map has non-*courseT items''), s)
                     | NilCourse \<Rightarrow> reportError ''couse is nil'' s
                     | Found a \<Rightarrow>
                         (let s1 = emit (DbDelete userID courseID) s in
                          case deleteRes e of
                            Inl err \<Rightarrow> reportError ''Database error while deleting course choice'' s1
                          | Inr rows \<Rightarrow>
                              if rows \<noteq> 0
                              then (case unchooseRemoved e courseID a s1 of
                                      Inl r \<Rightarrow> r
                                    | Inr s2 \<Rightarrow> writeTextOrCannotSend e (''N '' @ mar ! 1) s2)
                              else writeTextOrCannotSend e (''N '' @ mar ! 1) s1))))"

section \<open>The mode controller (setState)\<close>

text \<open>
  \<open>sync.Map.Range\<close> calls the function for each entry in turn and stops when the
  function returns false. The callback here also may panic (\<open>Inl\<close>).
\<close>

fun Range_syncMap ::
  "('k \<times> 'v) list \<Rightarrow> ('k \<Rightarrow> 'v \<Rightarrow> world \<Rightarrow> (error + bool) \<times> world) \<Rightarrow> world \<Rightarrow> error option \<times> world" where
  "Range_syncMap [] f s = (None, s)"
| "Range_syncMap ((k, v) # kvs) f s =
     (case f k v s of
        (Inl err, s1) \<Rightarrow> (Some err, s1)
      | (Inr cont, s1) \<Rightarrow> if cont then Range_syncMap kvs f s1 else (None, s1))"

text \<open>The function \<open>setState\<close> passes to \<open>cancelPool.Range\<close>: it returns false.\<close>

definition cancelEntry :: "string \<Rightarrow> cancel_item \<Rightarrow> world \<Rightarrow> (error + bool) \<times> world" where
  "cancelEntry k v s =
     (case v of
        NotACancel \<Rightarrow> (Inl (Panic ''chanPool has non-*contect.CancelFunc values''), s)
      | CancelPtr None \<Rightarrow> (Inl (Panic ''nil pointer dereference''), s)
      | CancelPtr (Some h) \<Rightarrow> (Inr False, emit (Cancel h) s))"

definition saveStateValue :: "env \<Rightarrow> 32 word \<Rightarrow> world \<Rightarrow> error option \<times> world" where
  "saveStateValue e newState s =
     (let s1 = emit (DbUpdateState newState) s in
      case saveErr e of
        Some err \<Rightarrow> (Some (wrapError errUnexpectedDBError (Some err)), s1)
      | None \<Rightarrow> (None, s1))"

definition setState :: "env \<Rightarrow> 32 word \<Rightarrow> world \<Rightarrow> error option \<times> world" where
  "setState e newState s =
     (case (if newState = 0 then Range_syncMap (cancelPool s) cancelEntry s
            else if newState = 1 then (None, emit (Propagate ''STOP'') s)
            else if newState = 2 then (None, emit (Propagate ''START'') s)
            else (Some errInvalidState, s)) of
        (Some err, s1) \<Rightarrow> (Some err, s1)
      | (None, s1) \<Rightarrow>
          (case saveStateValue e newState s1 of
             (Some err, s2) \<Rightarrow> (Some err, s2)
           | (None, s2) \<Rightarrow> (None, emit (StoreState newState) (s2\<lparr>state := newState\<rparr>))))"

text \<open>The handles that a trace shows as called, in order.\<close>

fun cancelled :: "event list \<Rightarrow> nat list" where
  "cancelled [] = []"
| "cancelled (Cancel h # es) = h # cancelled es"
| "cancelled (ev # es) = cancelled es"

text \<open>The handles registered in the session registry.\<close>

fun handles :: "(string \<times> cancel_item) list \<Rightarrow> nat list" where
  "handles [] = []"
| "handles ((k, CancelPtr (Some h)) # kvs) = h # handles kvs"
| "handles (kv # kvs) = handles kvs"

section \<open>The WebSocket endpoint (handleWs)\<close>

text \<open>
  What \<open>handleWs\<close> does, in order: the plain HTTP answer, text frames written with
  \<open>c.Write\<close> (whose results the source drops), the call of \<open>handleConn\<close> with the
  session cookie and the user id, the log line, and the deferred \<open>c.CloseNow\<close>.
\<close>

datatype ws_event =
    HttpWrite string
  | WsWrite string
  | HandleConn string string
  | LogPrintf error
  | CloseNow

text \<open>
  The results of the calls of \<open>handleWs\<close>: \<open>websocket.Accept\<close>, \<open>req.Cookie\<close> (the
  cookie's value), the scan of the session row (user id and expiry) and \<open>handleConn\<close>.
\<close>

record ws_env =
  acceptErr :: "error option"
  cookieRes :: "error + string"
  queryRes :: "error + (string \<times> int)"
  handleConnErr :: "error option"

text \<open>
  After the session query, \<open>userid\<close> still is the empty string when the scan failed;
  neither branch of that \<open>if\<close> returns.
\<close>

definition handleWs :: "ws_env \<Rightarrow> ws_event list" where
  "handleWs e =
     (case acceptErr e of
        Some err \<Rightarrow> [HttpWrite ''This endpoint only supports valid WebSocket connections.'']
      | None \<Rightarrow>
          (case cookieRes e of
             Inl err \<Rightarrow>
               if errorsIs err ErrNoCookie then [WsWrite ''U'', CloseNow]
               else [WsWrite ''E :Error fetching cookie'', CloseNow]
           | Inr cookie \<Rightarrow>
               (let (userid, w1) =
                      (case queryRes e of
                         Inl err \<Rightarrow>
                           if errorsIs err ErrNoRows then ([], [WsWrite ''U''])
                           else ([], [WsWrite ''E :Database error''])
                       | Inr (u, expr) \<Rightarrow> (u, []));
                    w2 = w1 @ [HandleConn cookie userid]
                in (case handleConnErr e of
                      Some err \<Rightarrow> w2 @ [LogPrintf err, CloseNow]
                    | None \<Rightarrow> w2 @ [CloseNow]))))"

text \<open>Whether a run of \<open>handleWs\<close> entered \<open>handleConn\<close>.\<close>

fun entersHandleConn :: "ws_event list \<Rightarrow> bool" where
  "entersHandleConn [] = False"
| "entersHandleConn (HandleConn c u # es) = True"
| "entersHandleConn (ev # es) = entersHandleConn es"

section \<open>Reading the results of a handler\<close>

text \<open>The events a handler added to the trace of the world it started from.\<close>

definition new_events :: "world \<Rightarrow> world \<Rightarrow> event list" where
  "new_events s s' = drop (length (trace s)) (trace s')"

text \<open>The seat invariant of the course at an address.\<close>

definition seats_ok :: "world \<Rightarrow> nat \<Rightarrow> bool" where
  "seats_ok s a = (Selected (heap s a) \<le> Max' (heap s a))"

text \<open>
  Every increment of a counter in a trace is made while the lock of that course is
  held: \<open>L\<close> is the set of courses whose lock is held at the start.
\<close>

fun adds_locked :: "nat set \<Rightarrow> event list \<Rightarrow> bool" where
  "adds_locked L [] = True"
| "adds_locked L (Lock a # es) = adds_locked (insert a L) es"
| "adds_locked L (Unlock a # es) = adds_locked (L - {a}) es"
| "adds_locked L (AtomicAddSelected a # es) = (a \<in> L \<and> adds_locked L es)"
| "adds_locked L (ev # es) = adds_locked L es"

text \<open>The frames a trace shows as handed to \<open>writeText\<close>, in order.\<close>

fun frames :: "event list \<Rightarrow> string list" where
  "frames [] = []"
| "frames (WriteText f # es) = f # frames es"
| "frames (ev # es) = frames es"

text \<open>Whether an event is a database statement.\<close>

fun is_db :: "event \<Rightarrow> bool" where
  "is_db DbBegin = True"
| "is_db (DbInsert t u c) = True"
| "is_db DbCommit = True"
| "is_db DbRollback = True"
| "is_db (DbDelete u c) = True"
| "is_db (DbUpdateState v) = True"
| "is_db ev = False"

section \<open>Sample inputs\<close>

text \<open>
  \<open>calm\<close>: an environment in which every call succeeds (the deferred rollback after
  a commit reports the closed transaction). \<open>school\<close>: a world in open mode with one
  course of one seat under id 7 and two registered sessions. \<open>held\<close>: as \<open>calm\<close>, but
  the INSERT fails with a unique violation. \<open>absent\<close>: as \<open>calm\<close>, but the DELETE
  removes no row. \<open>enrolled\<close>: the world after alice's frame \<open>Y 7\<close> was admitted in
  \<open>school\<close>, so alice holds course 7 in her session.
\<close>

definition calm :: env where
  "calm = \<lparr>ctxDone = None, now = 0, writeErr = (\<lambda>frame. None), beginErr = None,
            insertErr = None, commitErr = None, rollbackErr = None,
            deferRollbackErr = Some ErrTxClosed, deleteRes = Inr 1, decrementErr = None,
            sendUpdateErr = None, saveErr = None, propagateImmediate = False\<rparr>"

definition school :: world where
  "school = \<lparr>state = 2, courses = [7 \<mapsto> CoursePtr (Some 0)],
              heap = (\<lambda>a. \<lparr>Group = ''g'', Type = ''t'', Max' = 1, Selected = 0\<rparr>),
              cancelPool = [(''alice'', CancelPtr (Some 1)), (''bob'', CancelPtr (Some 2))],
              userCourseGroups = {}, userCourseTypes = Map.empty, trace = []\<rparr>"




section \<open>Predicates on the run of a handler\<close>

text \<open>
  \<open>no_adds\<close>: a trace without an increment. \<open>step_ok\<close>: a piece of a handler that keeps
  the seat invariant of every course and adds a trace without an increment.
  \<open>run_ok\<close>: a piece that keeps the seat invariant of every course and whose added
  trace increments only under the lock of the course and only a counter that was
  below the maximum at the start. \<open>reaffirmed\<close>: the effect of a Y frame for a seat
  already held.
\<close>

definition no_adds :: "event list \<Rightarrow> bool" where
  "no_adds es = (\<forall>a. AtomicAddSelected a \<notin> set es)"

definition step_ok :: "world \<Rightarrow> world \<Rightarrow> bool" where
  "step_ok s s' =
     ((\<forall>b. seats_ok s b \<longrightarrow> seats_ok s' b) \<and> (\<exists>es. trace s' = trace s @ es \<and> no_adds es))"

definition run_ok :: "world \<Rightarrow> world \<Rightarrow> bool" where
  "run_ok s s' =
     ((\<forall>b. seats_ok s b \<longrightarrow> seats_ok s' b) \<and>
      (\<exists>es. trace s' = trace s @ es \<and> adds_locked {} es \<and>
            (\<forall>c. AtomicAddSelected c \<in> set es \<longrightarrow> Selected (heap s c) < Max' (heap s c))))"


section \<open>The message splitter: a frame that ends in a space\<close>

lemma splitMsg_plain_frame: "splitMsg ''Y 7'' = Inr [''Y'', ''7'']"
  by (simp add: splitMsg_def)

lemma splitMsg_trailing_argument: "splitMsg ''R 7 :a b'' = Inr [''R'', ''7'', ''a b'']"
  by (simp add: splitMsg_def)

lemma splitMsg_empty_frame: "splitMsg [] = Inr [[]]"
  by (simp add: splitMsg_def)

text \<open>
  C10. The claim: \<open>splitMsg\<close> returns a field list for every frame, also for frames
  whose last byte is a space, without indexing out of bounds. On the frame \<open>Y\<close>
  followed by one space the loop reaches the space at index 1 and reads index 2 of a
  two-byte slice: the run ends in a panic, not in a field list.
\<close>

theorem splitMsg_trailing_space_panics:
  "splitMsg ''Y '' = Inl (Panic ''index out of range'')"
  by (simp add: splitMsg_def)

section \<open>The coalescing signal\<close>

lemma send_without_default_blocks: "select_send (Some \<lparr>cap = 1, buf = [()]\<rparr>) False = Blocks"
  by (simp add: select_send_def try_send_def)

lemma init_initialized: "initialized (init s) \<and> pending (init s) = 0"
  by (simp add: initialized_def init_def pending_def)

lemma try_recv_initialized: "initialized s \<Longrightarrow> try_recv s = Some s' \<Longrightarrow> initialized s' \<and> pending s' = 0"
  by (auto simp: initialized_def try_recv_def pending_def split: option.splits list.splits)

lemma set_usem_initialized:
  "initialized s \<Longrightarrow> \<exists>s'. set_usem s = Returns s' \<and> initialized s' \<and> pending s' = 1"
  by (auto simp: set_usem_def select_send_def try_send_def initialized_def pending_def le_Suc_eq
      split: option.splits)

lemma set_n_pending:
  "initialized s \<Longrightarrow> pending s = 1 \<Longrightarrow>
   \<exists>s'. set_n n s = Returns s' \<and> initialized s' \<and> pending s' = 1"
proof (induction n arbitrary: s)
  case 0
  then show ?case by simp
next
  case (Suc n)
  from set_usem_initialized [OF Suc.prems(1)] obtain s1 where
    s1: "set_usem s = Returns s1" "initialized s1" "pending s1 = 1" by blast
  from Suc.IH [OF s1(2) s1(3)] s1(1) show ?case by simp
qed

text \<open>
  C9. For every initialized signal, \<open>set\<close> does not block, and \<open>n \<ge> 1\<close> calls of \<open>set\<close>
  in a row, with no receive between them, all return and leave exactly one wake
  pending, whether or not one was pending before.
\<close>

theorem usem_set_coalesces:
  assumes "initialized s" and "1 \<le> n"
  shows "set_usem s \<noteq> Blocks \<and>
         (\<exists>s'. set_n n s = Returns s' \<and> pending s' = 1 \<and> initialized s')"
proof -
  obtain m where n: "n = Suc m" using assms(2) by (cases n) auto
  from set_usem_initialized [OF assms(1)] obtain s1 where
    s1: "set_usem s = Returns s1" "initialized s1" "pending s1 = 1" by blast
  from set_n_pending [OF s1(2) s1(3), of m] obtain s2 where
    s2: "set_n m s1 = Returns s2" "initialized s2" "pending s2 = 1" by blast
  have "set_n n s = Returns s2" using n s1(1) s2(1) by simp
  moreover have "set_usem s \<noteq> Blocks" using s1(1) by simp
  ultimately show ?thesis using s2 by blast
qed

theorem usem_set_coalesces_witness:
  "initialized (init \<lparr>u_ch = None\<rparr>) \<and> (1::nat) \<le> 3 \<and> set_usem (init \<lparr>u_ch = None\<rparr>) \<noteq> Blocks
   \<and> (\<exists>s'. set_n 3 (init \<lparr>u_ch = None\<rparr>) = Returns s' \<and> pending s' = 1 \<and> initialized s')"
  using usem_set_coalesces [of "init \<lparr>u_ch = None\<rparr>" 3]
  by (simp add: initialized_def init_def)

section \<open>The mode controller: closing\<close>

lemma setState_closed_first_handle:
  "cancelPool s = (k, CancelPtr (Some h)) # kvs \<Longrightarrow>
   cancelled (new_events s (snd (setState e 0 s))) = [h]"
  by (simp add: setState_def cancelEntry_def saveStateValue_def new_events_def emit_def Let_def
      split: option.splits)

text \<open>
  C5. The claim: \<open>setState(ctx, 0)\<close> calls the cancel handle of every registered
  session. With two sessions registered (handles 1 and 2) only the first handle that
  \<open>Range\<close> visits is called: the function given to \<open>Range\<close> returns false, which ends
  the walk.
\<close>

theorem setState_closed_cancels_first_only:
  "handles (cancelPool school) = [1, 2] \<and>
   cancelled (new_events school (snd (setState calm 0 school))) = [1]"
  by (simp add: setState_def school_def calm_def cancelEntry_def emit_def new_events_def
      saveStateValue_def)

section \<open>The WebSocket endpoint: unknown session cookie\<close>

text \<open>
  C6. The claim: for a session cookie that matches no row, \<open>handleWs\<close> sends \<open>U\<close> and
  closes without entering \<open>handleConn\<close>, and on a database error it sends
  \<open>E :Database error\<close> and closes likewise. The frames are sent, but in both cases
  \<open>handleConn\<close> is entered next, with the empty user id.
\<close>

theorem handleWs_unknown_cookie_enters_handleConn:
  "handleWs \<lparr>acceptErr = None, cookieRes = Inr ''stale'', queryRes = Inl ErrNoRows,
            handleConnErr = None\<rparr>
     = [WsWrite ''U'', HandleConn ''stale'' [], CloseNow] \<and>
   handleWs \<lparr>acceptErr = None, cookieRes = Inr ''stale'', queryRes = Inl (External ''db down''),
            handleConnErr = None\<rparr>
     = [WsWrite ''E :Database error'', HandleConn ''stale'' [], CloseNow] \<and>
   entersHandleConn
     (handleWs \<lparr>acceptErr = None, cookieRes = Inr ''stale'', queryRes = Inl ErrNoRows,
               handleConnErr = None\<rparr>)"
  by (simp add: handleWs_def)

section \<open>Effects of the pieces of the handlers\<close>

lemma emit_simps [simp]:
  "trace (emit ev s) = trace s @ [ev]"
  "heap (emit ev s) = heap s"
  "state (emit ev s) = state s"
  "courses (emit ev s) = courses s"
  "cancelPool (emit ev s) = cancelPool s"
  "userCourseGroups (emit ev s) = userCourseGroups s"
  "userCourseTypes (emit ev s) = userCourseTypes s"
  by (simp_all add: emit_def)

lemma new_events_append: "trace s' = trace s @ es \<Longrightarrow> new_events s s' = es"
  by (simp add: new_events_def)

lemma writeTextOrCannotSend_eq:
  "writeTextOrCannotSend e frame s =
     (map_option (\<lambda>err. wrapError errCannotSend (Some err)) (writeErr e frame), emit (WriteText frame) s)"
  by (simp add: writeTextOrCannotSend_def writeText_def split: option.splits)

lemma word_dec: "(x::32 word) \<le> m \<Longrightarrow> x \<noteq> 0 \<Longrightarrow> x - 1 \<le> m"
  by (simp add: word_le_nat_alt unat_minus_one)

lemma step_ok_refl [simp]: "step_ok s s"
  by (simp add: step_ok_def no_adds_def)

lemma step_ok_trans: "step_ok s s1 \<Longrightarrow> step_ok s1 s2 \<Longrightarrow> step_ok s s2"
  by (auto simp: step_ok_def no_adds_def)

lemma step_ok_emit: "(\<And>a. ev \<noteq> AtomicAddSelected a) \<Longrightarrow> step_ok s (emit ev s)"
  by (auto simp: step_ok_def no_adds_def seats_ok_def)

lemma decrement_step: "step_ok s (snd (decrementSelectedAndPropagate e a s))"
  by (auto simp: step_ok_def no_adds_def decrementSelectedAndPropagate_def seats_ok_def Let_def word_dec)

lemma chooseCommit_step: "step_ok s (snd (chooseCommit e mar cid a s))"
proof -
  let ?s2 = "emit DbCommit (emit (GoPropagateSelectedUpdate a) s)"
  have a: "step_ok s ?s2" by (auto simp: step_ok_def no_adds_def seats_ok_def)
  show ?thesis
  proof (cases "commitErr e")
    case (Some err)
    have "snd (chooseCommit e mar cid a s) = snd (decrementSelectedAndPropagate e a ?s2)"
      using Some by (simp add: chooseCommit_def Let_def split: prod.splits option.splits)
    then show ?thesis using step_ok_trans [OF a decrement_step [of ?s2 e a]] by simp
  next
    case None
    then show ?thesis
      by (auto simp: chooseCommit_def Let_def writeTextOrCannotSend_eq sendSelectedUpdate_def
          step_ok_def no_adds_def seats_ok_def split: option.splits)
  qed
qed

lemma chooseCommit_wsm_step: "step_ok s (snd (chooseCommit_wsm e mar cid a s))"
proof -
  let ?s2 = "emit DbCommit (emit (GoPropagateSelectedUpdate a) s)"
  have a: "step_ok s ?s2" by (auto simp: step_ok_def no_adds_def seats_ok_def)
  show ?thesis
  proof (cases "commitErr e")
    case (Some err)
    obtain r s3 where d: "decrementSelectedAndPropagate e a ?s2 = (r, s3)" by (cases "decrementSelectedAndPropagate e a ?s2")
    have s3: "step_ok s s3" using step_ok_trans [OF a decrement_step [of ?s2 e a]] d by simp
    have "snd (chooseCommit_wsm e mar cid a s) = s3 \<or> snd (chooseCommit_wsm e mar cid a s) = emit (ReportError ''Database error while committing transaction'') s3"
      using Some d by (simp add: chooseCommit_wsm_def Let_def reportError_def split: option.splits)
    then show ?thesis using s3 step_ok_trans [OF s3 step_ok_emit] by auto
  next
    case None
    then show ?thesis
      by (auto simp: chooseCommit_wsm_def Let_def writeTextOrCannotSend_eq sendSelectedUpdate_def
          step_ok_def no_adds_def seats_ok_def split: option.splits)
  qed
qed

lemma chooseFull_step: "step_ok s (snd (chooseFull e mar s))"
  by (auto simp: chooseFull_def Let_def writeTextOrCannotSend_eq step_ok_def no_adds_def seats_ok_def
      split: option.splits)

lemma chooseFull_wsm_step: "step_ok s (snd (chooseFull_wsm e mar s))"
  by (auto simp: chooseFull_wsm_def Let_def writeTextOrCannotSend_eq reportError_def step_ok_def
      no_adds_def seats_ok_def split: option.splits)

lemma adds_locked_mono: "adds_locked L es \<Longrightarrow> L \<subseteq> L' \<Longrightarrow> adds_locked L' es"
proof (induction es arbitrary: L L')
  case Nil
  then show ?case by simp
next
  case (Cons ev es)
  show ?case
  proof (cases ev)
    case (Lock a)
    with Cons.prems Cons.IH [of "insert a L" "insert a L'"] show ?thesis by auto
  next
    case (Unlock a)
    with Cons.prems Cons.IH [of "L - {a}" "L' - {a}"] show ?thesis by auto
  next
    case (AtomicAddSelected a)
    with Cons.prems Cons.IH [of L L'] show ?thesis by auto
  qed (use Cons.prems Cons.IH [of L L'] in auto)
qed

lemma adds_locked_no_adds: "no_adds es \<Longrightarrow> adds_locked L es"
proof (induction es arbitrary: L)
  case Nil
  then show ?case by simp
next
  case (Cons ev es)
  then have q: "no_adds es" and ne: "\<And>a. ev \<noteq> AtomicAddSelected a"
    by (auto simp: no_adds_def)
  show ?case using ne Cons.IH [OF q] by (cases ev) auto
qed

lemma adds_locked_append: "adds_locked L es1 \<Longrightarrow> no_adds es2 \<Longrightarrow> adds_locked L (es1 @ es2)"
proof (induction es1 arbitrary: L)
  case Nil
  then show ?case by (simp add: adds_locked_no_adds)
next
  case (Cons ev es1)
  then show ?case by (cases ev) auto
qed

lemma step_imp_run: "step_ok s s' \<Longrightarrow> run_ok s s'"
  by (auto simp: step_ok_def run_ok_def adds_locked_no_adds no_adds_def)

lemma run_then_step: "run_ok s s1 \<Longrightarrow> step_ok s1 s2 \<Longrightarrow> run_ok s s2"
proof -
  assume r: "run_ok s s1" and st: "step_ok s1 s2"
  from r obtain es1 where es1: "trace s1 = trace s @ es1" "adds_locked {} es1"
    "\<forall>c. AtomicAddSelected c \<in> set es1 \<longrightarrow> Selected (heap s c) < Max' (heap s c)"
    by (auto simp: run_ok_def)
  from st obtain es2 where es2: "trace s2 = trace s1 @ es2" "no_adds es2"
    by (auto simp: step_ok_def)
  have "trace s2 = trace s @ (es1 @ es2)" using es1(1) es2(1) by simp
  moreover have "adds_locked {} (es1 @ es2)" using es1(2) es2(2) by (rule adds_locked_append)
  moreover have "\<forall>c. AtomicAddSelected c \<in> set (es1 @ es2) \<longrightarrow> Selected (heap s c) < Max' (heap s c)"
    using es1(3) es2(2) by (auto simp: no_adds_def)
  moreover have "\<forall>b. seats_ok s b \<longrightarrow> seats_ok s2 b"
    using r st by (auto simp: run_ok_def step_ok_def)
  ultimately show ?thesis unfolding run_ok_def by blast
qed

lemma run_after_emit:
  assumes "\<And>a. ev \<noteq> AtomicAddSelected a" and "run_ok (emit ev s) s'"
  shows "run_ok s s'"
proof -
  from assms(2) obtain es where es: "trace s' = trace (emit ev s) @ es" "adds_locked {} es"
    "\<forall>c. AtomicAddSelected c \<in> set es \<longrightarrow> Selected (heap s c) < Max' (heap s c)"
    by (auto simp: run_ok_def)
  have "adds_locked {} [ev]" using assms(1) by (cases ev) auto
  then have "adds_locked {} (ev # es)"
    using assms(1) es(2) adds_locked_mono [OF es(2), of "{a}" for a] by (cases ev) auto
  moreover have "trace s' = trace s @ (ev # es)" using es(1) by simp
  moreover have "\<forall>c. AtomicAddSelected c \<in> set (ev # es) \<longrightarrow> Selected (heap s c) < Max' (heap s c)"
    using es(3) assms(1) by auto
  moreover have "\<forall>b. seats_ok s b \<longrightarrow> seats_ok s' b"
    using assms(2) by (auto simp: run_ok_def seats_ok_def)
  ultimately show ?thesis unfolding run_ok_def by blast
qed

lemma lockedAdmit_run: "run_ok s (snd (lockedAdmit a s))"
  by (auto simp: run_ok_def lockedAdmit_def Let_def seats_ok_def inc_le)

lemma chooseInsert_run: "run_ok s (snd (chooseInsert e mar u cid a s))"
proof (rule run_after_emit [where ev = "DbInsert (now e) u cid"])
  let ?s1 = "emit (DbInsert (now e) u cid) s"
  show "run_ok ?s1 (snd (chooseInsert e mar u cid a s))"
  proof (cases "insertErr e")
    case (Some err)
    then have "snd (chooseInsert e mar u cid a s) = ?s1
             \<or> snd (chooseInsert e mar u cid a s) = emit (WriteText (''Y '' @ mar ! 1)) ?s1"
      by (auto simp: chooseInsert_def Let_def writeText_def split: option.splits)
    then show ?thesis
      using step_imp_run [OF step_ok_emit [of "WriteText (''Y '' @ mar ! 1)" ?s1]]
        step_imp_run [OF step_ok_refl [of ?s1]] by auto
  next
    case None
    obtain ok s2 where l: "lockedAdmit a ?s1 = (ok, s2)" by (cases "lockedAdmit a ?s1")
    have r2: "run_ok ?s1 s2" using lockedAdmit_run [of ?s1 a] l by simp
    have "snd (chooseInsert e mar u cid a s) = snd (if ok then chooseCommit e mar cid a s2 else chooseFull e mar s2)"
      using None l by (simp add: chooseInsert_def Let_def)
    then show ?thesis
      using run_then_step [OF r2 chooseCommit_step [of s2 e mar cid a]]
        run_then_step [OF r2 chooseFull_step [of s2 e mar]] by (cases ok) auto
  qed
qed simp

lemma chooseInsert_wsm_run: "run_ok s (snd (chooseInsert_wsm e mar u cid a s))"
proof (rule run_after_emit [where ev = "DbInsert (now e) u cid"])
  let ?s1 = "emit (DbInsert (now e) u cid) s"
  show "run_ok ?s1 (snd (chooseInsert_wsm e mar u cid a s))"
  proof (cases "insertErr e")
    case (Some err)
    then have "snd (chooseInsert_wsm e mar u cid a s) = emit (WriteText (''Y '' @ mar ! 1)) ?s1
             \<or> snd (chooseInsert_wsm e mar u cid a s)
                 = emit (ReportError ''Database error while inserting course choice'') ?s1"
      by (auto simp: chooseInsert_wsm_def Let_def writeText_def reportError_def split: option.splits)
    then show ?thesis
      using step_imp_run [OF step_ok_emit [of "WriteText (''Y '' @ mar ! 1)" ?s1]]
        step_imp_run [OF step_ok_emit [of "ReportError ''Database error while inserting course choice''" ?s1]]
      by auto
  next
    case None
    obtain ok s2 where l: "lockedAdmit a ?s1 = (ok, s2)" by (cases "lockedAdmit a ?s1")
    have r2: "run_ok ?s1 s2" using lockedAdmit_run [of ?s1 a] l by simp
    have "snd (chooseInsert_wsm e mar u cid a s)
            = snd (if ok then chooseCommit_wsm e mar cid a s2 else chooseFull_wsm e mar s2)"
      using None l by (simp add: chooseInsert_wsm_def Let_def)
    then show ?thesis
      using run_then_step [OF r2 chooseCommit_wsm_step [of s2 e mar cid a]]
        run_then_step [OF r2 chooseFull_wsm_step [of s2 e mar]] by (cases ok) auto
  qed
qed simp

lemma deferredRollback_step: "step_ok (snd rs) (snd (deferredRollback e rs))"
  by (cases rs) (auto simp: deferredRollback_def Let_def step_ok_def no_adds_def seats_ok_def
      split: option.splits)

lemma deferredRollback_wsm_step: "step_ok (snd rs) (snd (deferredRollback_wsm e rs))"
  by (cases rs) (auto simp: deferredRollback_wsm_def Let_def reportError_def step_ok_def no_adds_def
      seats_ok_def split: option.splits)

lemma chooseTx_run: "run_ok s (snd (chooseTx e mar u cid a s))"
proof (rule run_after_emit [where ev = DbBegin])
  show "run_ok (emit DbBegin s) (snd (chooseTx e mar u cid a s))"
  proof (cases "beginErr e")
    case (Some err)
    then show ?thesis by (simp add: chooseTx_def Let_def step_imp_run)
  next
    case None
    then show ?thesis
      using run_then_step [OF chooseInsert_run deferredRollback_step]
      by (simp add: chooseTx_def Let_def)
  qed
qed simp

lemma chooseTx_wsm_run: "run_ok s (snd (chooseTx_wsm e mar u cid a s))"
proof (rule run_after_emit [where ev = DbBegin])
  show "run_ok (emit DbBegin s) (snd (chooseTx_wsm e mar u cid a s))"
  proof (cases "beginErr e")
    case (Some err)
    then show ?thesis
      using step_imp_run [OF step_ok_emit [of "ReportError ''Database error while beginning transaction''" "emit DbBegin s"]]
      by (simp add: chooseTx_wsm_def Let_def reportError_def)
  next
    case None
    then show ?thesis
      using run_then_step [OF chooseInsert_wsm_run deferredRollback_wsm_step]
      by (simp add: chooseTx_wsm_def Let_def)
  qed
qed simp

lemma run_ok_emit: "(\<And>a. ev \<noteq> AtomicAddSelected a) \<Longrightarrow> run_ok s (emit ev s)"
  by (rule step_imp_run [OF step_ok_emit])

lemma run_ok_refl: "run_ok s s"
  by (rule step_imp_run [OF step_ok_refl])

lemma messageChooseCourse_run: "run_ok s (snd (messageChooseCourse e mar u s))"
  by (simp add: messageChooseCourse_def writeTextOrCannotSend_eq run_ok_emit run_ok_refl
      chooseTx_run split: option.splits lookup.splits)

lemma messageChooseCourse_wsm_run: "run_ok s (snd (messageChooseCourse_wsm e mar u s))"
  by (simp add: messageChooseCourse_wsm_def writeTextOrCannotSend_eq reportError_def run_ok_emit
      run_ok_refl chooseTx_wsm_run split: option.splits lookup.splits)

lemma trace_school: "trace school = []"
  by (simp add: school_def)

lemma parse_999: "ParseInt ''999'' = Some 999"
  by (simp add: ParseInt_def digit_val_def)

section \<open>Seats never exceed the maximum\<close>

lemma school_admit:
  "messageChooseCourse calm [''Y'', ''7''] ''alice'' school =
     (None, school\<lparr>heap := (heap school)(0 := \<lparr>Group = ''g'', Type = ''t'', Max' = 1, Selected = 1\<rparr>),
            userCourseGroups := {''g''}, userCourseTypes := [''t'' \<mapsto> 1],
            trace := [DbBegin, DbInsert 0 ''alice'' 7, Lock 0, AtomicAddSelected 0, Unlock 0,
                      GoPropagateSelectedUpdate 0, DbCommit, WriteText ''Y 7'', DbRollback]\<rparr>)"
  by (simp add: messageChooseCourse_def calm_def school_def ParseInt_def digit_val_def loadCourse_def
      chooseTx_def chooseInsert_def chooseCommit_def lockedAdmit_def deferredRollback_def
      writeTextOrCannotSend_eq emit_def Let_def)

text \<open>
  C1. For each version of \<open>messageChooseCourse\<close>, every frame, every session state and
  every result of the outside calls: a course whose counter is at most its maximum
  before the handler still is so after it (whichever branch runs: admit, decline,
  duplicate or error); every increment in the handler's trace is made while the lock of
  that course is held; and a counter is incremented only if it was below the maximum
  when the handler started.
\<close>

theorem choose_keeps_seats_within_max:
  assumes "seats_ok s b"
    and "h \<in> {messageChooseCourse, messageChooseCourse_wsm}"
  shows "seats_ok (snd (h e mar u s)) b \<and>
         adds_locked {} (new_events s (snd (h e mar u s))) \<and>
         (AtomicAddSelected c \<in> set (new_events s (snd (h e mar u s)))
            \<longrightarrow> Selected (heap s c) < Max' (heap s c))"
proof -
  have r: "run_ok s (snd (h e mar u s))"
    using assms(2) messageChooseCourse_run [of s e mar u] messageChooseCourse_wsm_run [of s e mar u]
    by auto
  then obtain es where es: "trace (snd (h e mar u s)) = trace s @ es" "adds_locked {} es"
    "\<forall>c. AtomicAddSelected c \<in> set es \<longrightarrow> Selected (heap s c) < Max' (heap s c)"
    by (auto simp: run_ok_def)
  have "new_events s (snd (h e mar u s)) = es" using es(1) by (rule new_events_append)
  then show ?thesis using es r assms(1) by (auto simp: run_ok_def)
qed

theorem choose_keeps_seats_within_max_witness:
  "seats_ok school 0 \<and>
   messageChooseCourse \<in> {messageChooseCourse, messageChooseCourse_wsm} \<and>
   seats_ok (snd (messageChooseCourse calm [''Y'', ''7''] ''alice'' school)) 0 \<and>
   adds_locked {} (new_events school (snd (messageChooseCourse calm [''Y'', ''7''] ''alice'' school))) \<and>
   AtomicAddSelected 0
     \<in> set (new_events school (snd (messageChooseCourse calm [''Y'', ''7''] ''alice'' school))) \<and>
   Selected (heap school 0) < Max' (heap school 0)"
proof -
  have a: "seats_ok school 0" by (simp add: seats_ok_def school_def)
  have b: "messageChooseCourse \<in> {messageChooseCourse, messageChooseCourse_wsm}" by simp
  have c: "AtomicAddSelected 0
     \<in> set (new_events school (snd (messageChooseCourse calm [''Y'', ''7''] ''alice'' school)))"
    by (simp add: school_admit new_events_def trace_school)
  show ?thesis
    using choose_keeps_seats_within_max [OF a b, of calm "[''Y'', ''7'']" "''alice''" 0] a c
    by simp
qed

section \<open>Mode gating\<close>

text \<open>
  C2. When the mode cell is not 2, each of the Y handlers and the N handler hands
  exactly the frame \<open>E :Course selections are not open\<close> to \<open>writeText\<close> and returns
  (nil, or the send error wrapped in \<open>errCannotSend\<close>). The world after it differs from
  the world before it in that one trace entry only: no database statement is issued, no
  counter, group set or type count changes.
\<close>

theorem mode_gate_replies_and_stops:
  assumes "state s \<noteq> 2"
    and "h \<in> {messageChooseCourse, messageChooseCourse_wsm, messageUnchooseCourse}"
  shows "snd (h e mar u s) = s\<lparr>trace := trace s @ [WriteText ''E :Course selections are not open'']\<rparr> \<and>
         fst (h e mar u s) = map_option (\<lambda>err. wrapError errCannotSend (Some err))
                               (writeErr e ''E :Course selections are not open'') \<and>
         frames (new_events s (snd (h e mar u s))) = [''E :Course selections are not open''] \<and>
         \<not> list_ex is_db (new_events s (snd (h e mar u s)))"
proof -
  have "h e mar u s = writeTextOrCannotSend e ''E :Course selections are not open'' s"
    using assms
    by (auto simp: messageChooseCourse_def messageChooseCourse_wsm_def messageUnchooseCourse_def)
  then show ?thesis
    by (simp add: writeTextOrCannotSend_eq emit_def new_events_def)
qed

theorem mode_gate_replies_and_stops_witness:
  "state (school\<lparr>state := 1\<rparr>) \<noteq> 2 \<and>
   messageUnchooseCourse \<in> {messageChooseCourse, messageChooseCourse_wsm, messageUnchooseCourse} \<and>
   snd (messageUnchooseCourse calm [''N'', ''7''] ''alice'' (school\<lparr>state := 1\<rparr>))
     = (school\<lparr>state := 1\<rparr>)\<lparr>trace := trace (school\<lparr>state := 1\<rparr>) @ [WriteText ''E :Course selections are not open'']\<rparr> \<and>
   fst (messageUnchooseCourse calm [''N'', ''7''] ''alice'' (school\<lparr>state := 1\<rparr>)) = None \<and>
   frames (new_events (school\<lparr>state := 1\<rparr>) (snd (messageUnchooseCourse calm [''N'', ''7''] ''alice'' (school\<lparr>state := 1\<rparr>))))
     = [''E :Course selections are not open''] \<and>
   \<not> list_ex is_db (new_events (school\<lparr>state := 1\<rparr>) (snd (messageUnchooseCourse calm [''N'', ''7''] ''alice'' (school\<lparr>state := 1\<rparr>))))"
proof -
  have w: "writeErr calm ''E :Course selections are not open'' = None"
    by (simp add: calm_def)
  show ?thesis
    using mode_gate_replies_and_stops [of "school\<lparr>state := 1\<rparr>" messageUnchooseCourse calm "[''N'', ''7'']" "''alice''"] w
    by (simp add: new_events_def)
qed

section \<open>A Y frame for a seat already held\<close>










lemma group_conflict_precedes_insert:
  "state s = 2 \<Longrightarrow> ctxDone e = None \<Longrightarrow> length mar = 2 \<Longrightarrow> ParseInt (mar ! 1) = Some cid \<Longrightarrow>
   loadCourse s cid = Found a \<Longrightarrow> Group (heap s a) \<in> userCourseGroups s \<Longrightarrow>
   messageChooseCourse e mar u s
     = writeTextOrCannotSend e (''R '' @ mar ! 1 @ '' :Group conflict'') s"
  by (simp add: messageChooseCourse_def)






section \<open>An N frame for a seat not held\<close>





section \<open>The mode controller: persisting\<close>

lemma Range_cancel_state: "state (snd (Range_syncMap kvs cancelEntry s)) = state s"
  by (induction kvs arbitrary: s) (auto simp: cancelEntry_def split: cancel_item.splits option.splits)

lemma Range_cancel_trace: "\<exists>es. trace (snd (Range_syncMap kvs cancelEntry s)) = trace s @ es \<and> (\<forall>v. StoreState v \<notin> set es)"
proof (induction kvs arbitrary: s)
  case Nil
  then show ?case by simp
next
  case (Cons kv kvs)
  then show ?case
    by (cases kv) (auto simp: cancelEntry_def split: cancel_item.splits option.splits)
qed

text \<open>
  C7. \<open>setState\<close> stores the new mode in the atomic cell only after
  \<open>saveStateValue\<close> succeeded. If the persistence fails, \<open>setState\<close> returns an error
  (for the modes 1 and 2 the database error wrapped in \<open>errUnexpectedDBError\<close>) and the
  cell is unchanged; whenever \<open>setState\<close> returns an error the cell is unchanged and
  was not stored to; when it returns nil the cell holds the new mode and the trace
  ends with the UPDATE followed by the store.
\<close>

theorem setState_persists_before_store:
  "(saveErr e = Some err \<longrightarrow>
      fst (setState e newState s) \<noteq> None \<and> state (snd (setState e newState s)) = state s \<and>
      (newState = 1 \<or> newState = 2 \<longrightarrow>
         fst (setState e newState s) = Some (wrapError errUnexpectedDBError (Some err)))) \<and>
   (fst (setState e newState s) \<noteq> None \<longrightarrow>
      state (snd (setState e newState s)) = state s \<and>
      StoreState newState \<notin> set (new_events s (snd (setState e newState s)))) \<and>
   (fst (setState e newState s) = None \<longrightarrow>
      saveErr e = None \<and> state (snd (setState e newState s)) = newState \<and>
      (\<exists>es. new_events s (snd (setState e newState s))
               = es @ [DbUpdateState newState, StoreState newState]))"
proof -
  obtain r s1 where pre: "(if newState = 0 then Range_syncMap (cancelPool s) cancelEntry s
            else if newState = 1 then (None, emit (Propagate ''STOP'') s)
            else if newState = 2 then (None, emit (Propagate ''START'') s)
            else (Some errInvalidState, s)) = (r, s1)"
    by (cases "(if newState = 0 then Range_syncMap (cancelPool s) cancelEntry s
            else if newState = 1 then (None, emit (Propagate ''STOP'') s)
            else if newState = 2 then (None, emit (Propagate ''START'') s)
            else (Some errInvalidState, s))")
  have st1: "state s1 = state s"
    using pre Range_cancel_state [of "cancelPool s" s] by (auto split: if_splits)
  obtain es where es: "trace s1 = trace s @ es" "\<forall>v. StoreState v \<notin> set es"
    using pre Range_cancel_trace [of "cancelPool s" s] by (auto split: if_splits)
  have r12: "newState = 1 \<or> newState = 2 \<Longrightarrow> r = None"
    using pre by (auto split: if_splits)
  show ?thesis
    using st1 es r12 unfolding setState_def pre
    by (cases r; cases "saveErr e") (auto simp: saveStateValue_def Let_def new_events_def)
qed

theorem setState_persists_before_store_witness:
  "saveErr (calm\<lparr>saveErr := Some (External ''db down'')\<rparr>) = Some (External ''db down'') \<and>
   fst (setState (calm\<lparr>saveErr := Some (External ''db down'')\<rparr>) 1 school)
     = Some (wrapError errUnexpectedDBError (Some (External ''db down''))) \<and>
   state (snd (setState (calm\<lparr>saveErr := Some (External ''db down'')\<rparr>) 1 school)) = 2 \<and>
   fst (setState calm 1 school) = None \<and> state (snd (setState calm 1 school)) = 1"
  using setState_persists_before_store [of "calm\<lparr>saveErr := Some (External ''db down'')\<rparr>" "External ''db down''" 1 school]
    setState_persists_before_store [of calm "External ''db down''" 1 school]
  by (simp add: calm_def school_def setState_def saveStateValue_def emit_def)

section \<open>A Y frame for an unknown course\<close>

text \<open>
  C8, as the claim states it: a Y frame in open mode whose id is not in the catalogue
  is answered with \<open>R <id> :No such course\<close>. For the frame \<open>Y 999\<close> and a catalogue
  without course 999, neither version of the handler hands that frame to
  \<open>writeText\<close>.
\<close>

theorem unknown_course_no_R_reply:
  "WriteText ''R 999 :No such course''
     \<notin> set (new_events school (snd (messageChooseCourse calm [''Y'', ''999''] ''alice'' school))) \<and>
   WriteText ''R 999 :No such course''
     \<notin> set (new_events school (snd (messageChooseCourse_wsm calm [''Y'', ''999''] ''alice'' school)))"
  by (simp add: messageChooseCourse_def messageChooseCourse_wsm_def loadCourse_def reportError_def
      emit_def calm_def school_def parse_999 new_events_def)

text \<open>
  C8, amended. In open mode, with the context not cancelled, two fields and a parsed
  id that \<open>courses.Load\<close> does not find: the newer \<open>messageChooseCourse\<close> returns
  \<open>errNoSuchCourse\<close> and does nothing else; the version of wsm.go calls
  \<open>reportError("no such course")\<close>, returns its error and does nothing else.
\<close>

theorem unknown_course_is_an_error:
  assumes "state s = 2" and "ctxDone e = None" and "length mar = 2"
    and "ParseInt (mar ! 1) = Some cid" and "courses s cid = None"
  shows "messageChooseCourse e mar u s = (Some errNoSuchCourse, s) \<and>
         messageChooseCourse_wsm e mar u s
           = (Some (Reported ''no such course''), s\<lparr>trace := trace s @ [ReportError ''no such course'']\<rparr>)"
  using assms
  by (simp add: messageChooseCourse_def messageChooseCourse_wsm_def loadCourse_def reportError_def emit_def)

theorem unknown_course_is_an_error_witness:
  "state school = 2 \<and> ctxDone calm = None \<and> length [''Y'', ''999''] = 2 \<and>
   ParseInt ([''Y'', ''999''] ! 1) = Some 999 \<and> courses school 999 = None \<and>
   messageChooseCourse calm [''Y'', ''999''] ''alice'' school = (Some errNoSuchCourse, school) \<and>
   messageChooseCourse_wsm calm [''Y'', ''999''] ''alice'' school
     = (Some (Reported ''no such course''), school\<lparr>trace := trace school @ [ReportError ''no such course'']\<rparr>)"
proof -
  have a: "state school = 2" "courses school 999 = None" by (simp_all add: school_def)
  have b: "ctxDone calm = None" by (simp add: calm_def)
  have c: "ParseInt ([''Y'', ''999''] ! 1) = Some 999" by (simp add: parse_999)
  have d: "length [''Y'', ''999''] = 2" by simp
  show ?thesis
    using unknown_course_is_an_error [OF a(1) b d c a(2), of "''alice''"] a b c by simp
qed

end
